theory Spec2Isabelle
  imports Main
begin

section \<open>The convert component (convert.component.ts)\<close>

subsection \<open>Data\<close>

text \<open>
  Modelled from the spec: the enumeration \<open>ConvertState\<close> (convert-state.ts is not among the
  sources). The component names \<open>WaitingForClipboardContent\<close>, \<open>HasValidClipboardContent\<close>,
  \<open>Failed\<close>, \<open>Successful\<close> and \<open>FFmpegNotFound\<close>; the specification adds \<open>Converting\<close>.
\<close>

datatype ConvertState =
    WaitingForClipboardContent
  | HasValidClipboardContent
  | Converting
  | Successful
  | Failed
  | FFmpegNotFound

text \<open>
  The only closure the component ever hands to the delayer is \<open>() => this.resetState()\<close>;
  a delayed action is that closure, kept as a value.
\<close>

datatype DelayedAction = ResetState

text \<open>
  Modelled from the spec: the class \<open>Delayer\<close> (core/delayer.ts is not among the sources).
  The specification describes a delayed action that runs once, after a fixed delay and not
  before. The delayer is a logical clock in milliseconds and the actions still waiting,
  each with the instant at which it is due, in the order they were handed over.
\<close>

record Delayer =
  clock :: nat
  pending :: "(nat \<times> DelayedAction) list"

text \<open>An rxjs \<open>Subscription\<close>: once closed, none of the handlers added to it is called.\<close>

record Subscription =
  closed :: bool

text \<open>
  The fields of \<open>ConvertComponent\<close> that the handlers read or write. \<open>progressPercent\<close>,
  \<open>downloadUrl\<close> and \<open>convertState\<close> stand for the private fields behind the accessors of the
  same name; the accessors only read and write them.
\<close>

record ConvertComponent =
  delayer :: Delayer
  subscription :: Subscription
  progressPercent :: int
  downloadUrl :: string
  convertState :: ConvertState

subsection \<open>The convertibility test of the convert service\<close>

text \<open>
  Modelled from the spec: \<open>Strings.isNullOrWhiteSpace\<close> (core/Strings.ts is not among the
  sources). The specification calls a text blank when it has nothing but whitespace. The
  parameter is declared \<open>string\<close>, so \<open>null\<close> is outside the type; the whitespace characters
  are space, tab, line feed, vertical tab, form feed and carriage return.
\<close>

definition isWhiteSpaceChar :: "char \<Rightarrow> bool" where
  "isWhiteSpaceChar c =
     (c = CHR '' '' \<or> c = CHR 0x09 \<or> c = CHR 0x0A \<or> c = CHR 0x0B \<or> c = CHR 0x0C \<or> c = CHR 0x0D)"

definition isNullOrWhiteSpace :: "string \<Rightarrow> bool" where
  "isNullOrWhiteSpace stringToCheck = list_all isWhiteSpaceChar stringToCheck"

text \<open>
  \<open>String.prototype.includes\<close>: the search string occurs at some position of the text.
  \<open>startsWith s x\<close> compares \<open>x\<close> with the beginning of \<open>s\<close>; \<open>string_includes\<close> tries every position
  from the left. (\<open>includes\<close> is a keyword of Isabelle, hence the longer name.)
\<close>

fun startsWith :: "string \<Rightarrow> string \<Rightarrow> bool" where
  "startsWith s [] = True"
| "startsWith [] (y # ys) = False"
| "startsWith (c # s) (y # ys) = (c = y \<and> startsWith s ys)"

fun string_includes :: "string \<Rightarrow> string \<Rightarrow> bool" where
  "string_includes [] x = startsWith [] x"
| "string_includes (c # s) x = (startsWith (c # s) x \<or> string_includes s x)"

text \<open>
  \<open>ConvertService.isVideoUrlConvertible\<close>. The table \<open>Constants.youtubeLinks\<close> is not among
  the sources and is the first parameter; \<open>Array.prototype.some\<close> is \<open>list_ex\<close>.
\<close>

definition isVideoUrlConvertible :: "string list \<Rightarrow> string \<Rightarrow> bool" where
  "isVideoUrlConvertible youtubeLinks videoUrl =
     (if \<not> isNullOrWhiteSpace videoUrl
      then list_ex (\<lambda>x. string_includes videoUrl x) youtubeLinks
      else False)"

subsection \<open>The delayer\<close>

text \<open>
  Modelled from the spec: \<open>Delayer.execute(action, delayMilliseconds)\<close> registers the action
  to run once, \<open>delayMilliseconds\<close> after the present instant. It returns nothing: the
  caller keeps no handle on the registered action.
\<close>

definition execute :: "DelayedAction \<Rightarrow> nat \<Rightarrow> Delayer \<Rightarrow> Delayer" where
  "execute action delayMilliseconds d =
     d\<lparr>pending := pending d @ [(clock d + delayMilliseconds, action)]\<rparr>"

subsection \<open>The handlers\<close>

definition resetState :: "ConvertComponent \<Rightarrow> ConvertComponent" where
  "resetState c =
     c\<lparr>convertState := WaitingForClipboardContent, progressPercent := 0, downloadUrl := ''''\<rparr>"

text \<open>
  The constructor receives the injected delayer and calls \<open>resetState\<close>, which gives the three
  fields their first values; the subscription starts open (\<open>new Subscription()\<close>).
\<close>

definition constructor :: "Delayer \<Rightarrow> ConvertComponent" where
  "constructor d =
     resetState \<lparr>delayer = d, subscription = \<lparr>closed = False\<rparr>, progressPercent = 0,
       downloadUrl = '''', convertState = WaitingForClipboardContent\<rparr>"

text \<open>
  \<open>checkPrerequisitesAsync\<close>: the argument is the value that the awaited call
  \<open>this.convert.checkPrerequisitesAsync()\<close> resolves to (that method is not among the
  sources).
\<close>

definition checkPrerequisitesAsync :: "bool \<Rightarrow> ConvertComponent \<Rightarrow> ConvertComponent" where
  "checkPrerequisitesAsync prerequisitesOk c =
     (if prerequisitesOk
      then c\<lparr>convertState := WaitingForClipboardContent\<rparr>
      else c\<lparr>convertState := FFmpegNotFound\<rparr>)"

definition unsubscribe :: "Subscription \<Rightarrow> Subscription" where
  "unsubscribe sub = sub\<lparr>closed := True\<rparr>"

definition ngOnDestroy :: "ConvertComponent \<Rightarrow> ConvertComponent" where
  "ngOnDestroy c = c\<lparr>subscription := unsubscribe (subscription c)\<rparr>"

text \<open>\<open>NgZone.run\<close> calls its argument at once, so the handlers below are its body.\<close>

definition handleConvertStateChanged :: "ConvertState \<Rightarrow> ConvertComponent \<Rightarrow> ConvertComponent" where
  "handleConvertStateChanged newState c =
     (let c1 = c\<lparr>convertState := newState\<rparr>
      in if newState = Failed \<or> newState = Successful
         then c1\<lparr>delayer := execute ResetState 3000 (delayer c1)\<rparr>
         else c1)"

definition handleConvertProgressChanged :: "int \<Rightarrow> ConvertComponent \<Rightarrow> ConvertComponent" where
  "handleConvertProgressChanged newProgressPercent c = c\<lparr>progressPercent := newProgressPercent\<rparr>"

definition handleClipboardContentChanged ::
  "string list \<Rightarrow> string \<Rightarrow> ConvertComponent \<Rightarrow> ConvertComponent" where
  "handleClipboardContentChanged youtubeLinks clipboardText c =
     (if convertState c \<noteq> WaitingForClipboardContent \<and> convertState c \<noteq> HasValidClipboardContent
      then c
      else if isVideoUrlConvertible youtubeLinks clipboardText
           then c\<lparr>convertState := HasValidClipboardContent, downloadUrl := clipboardText\<rparr>
           else resetState c)"

subsection \<open>Time and events\<close>

fun runAction :: "DelayedAction \<Rightarrow> ConvertComponent \<Rightarrow> ConvertComponent" where
  "runAction ResetState c = resetState c"

text \<open>
  Modelled from the spec: the passing of \<open>dt\<close> milliseconds with no other event in between.
  The clock advances; every action that is due by the new instant leaves the waiting list
  and runs, earliest first (actions due at the same instant in the order they were
  registered); the others keep waiting.
\<close>

definition elapse :: "nat \<Rightarrow> ConvertComponent \<Rightarrow> ConvertComponent" where
  "elapse dt c =
     (let t = clock (delayer c) + dt;
          due = filter (\<lambda>p. fst p \<le> t) (pending (delayer c));
          waiting = filter (\<lambda>p. \<not> fst p \<le> t) (pending (delayer c))
      in fold (\<lambda>p. runAction (snd p)) (sort_key fst due)
           (c\<lparr>delayer := \<lparr>clock = t, pending = waiting\<rparr>\<rparr>))"

text \<open>
  What can happen to a component after \<open>ngOnInit\<close> has added its three handlers to the
  subscription: one of the three streams emits, time passes, or Angular tears the
  component down.
\<close>

datatype Event =
    ClipboardContentChanged string
  | ConvertProgressChanged int
  | ConvertStateChanged ConvertState
  | Elapsed nat
  | Destroy

fun deliver :: "string list \<Rightarrow> Event \<Rightarrow> ConvertComponent \<Rightarrow> ConvertComponent" where
  "deliver youtubeLinks (ClipboardContentChanged clipboardText) c =
     (if closed (subscription c) then c
      else handleClipboardContentChanged youtubeLinks clipboardText c)"
| "deliver youtubeLinks (ConvertProgressChanged p) c =
     (if closed (subscription c) then c else handleConvertProgressChanged p c)"
| "deliver youtubeLinks (ConvertStateChanged s) c =
     (if closed (subscription c) then c else handleConvertStateChanged s c)"
| "deliver youtubeLinks (Elapsed dt) c = elapse dt c"
| "deliver youtubeLinks Destroy c = ngOnDestroy c"

text \<open>
  \<open>ngOnInit\<close> adds the handlers and then awaits the prerequisites check. The events of
  \<open>during\<close> are those delivered while the check is awaited; the rest of the method runs when
  the check resolves to \<open>prerequisitesOk\<close>.
\<close>

definition ngOnInit ::
  "string list \<Rightarrow> Event list \<Rightarrow> bool \<Rightarrow> ConvertComponent \<Rightarrow> ConvertComponent" where
  "ngOnInit youtubeLinks during prerequisitesOk c =
     checkPrerequisitesAsync prerequisitesOk (fold (deliver youtubeLinks) during c)"

text \<open>A component in the middle of a conversion, created at instant 0.\<close>

definition busy :: ConvertComponent where
  "busy = (constructor \<lparr>clock = 0, pending = []\<rparr>)
            \<lparr>convertState := Converting, progressPercent := 100,
             downloadUrl := ''https://youtu.be/abc''\<rparr>"

section \<open>The convert service (convert.service.ts)\<close>

datatype error = Rejected string

record ConversionResult =
  isConversionSuccessful :: bool
  convertedFilePath :: string

datatype AudioFormat = AudioFormat string

text \<open>
  The callback \<open>(progressPercent) => this.onConversionProgressChanged(progressPercent)\<close>,
  kept as a value: it forwards each progress value to the progress stream and touches no
  field of the service.
\<close>

datatype ProgressCallback = OnConversionProgressChanged

text \<open>
  The collaborators are not among the sources; the service sees them through what their
  calls give back. An awaited call gives a value or rejects, and a rejection is raised at
  the \<open>await\<close>.
\<close>

record DependencyChecker =
  isDependencyInSystemPathAsync :: "error + bool"
  getPathOfDownloadedDependency :: string

record FileSystem =
  ensureDirectoryAsync :: "string \<Rightarrow> error + unit"
  getFileName :: "string \<Rightarrow> string"

type_synonym VideoConverter =
  "string \<Rightarrow> string \<Rightarrow> AudioFormat \<Rightarrow> int \<Rightarrow> string \<Rightarrow> string \<Rightarrow> ProgressCallback
     \<Rightarrow> error + ConversionResult"

record ConvertService =
  outputDirectory :: string
  lastConvertedFilePath :: string
  lastConvertedFileName :: string
  selectedAudioFormat :: AudioFormat
  selectedAudioBitrate :: int
  ffmpegChecker :: DependencyChecker
  youtubeDlChecker :: DependencyChecker
  fileSystem :: FileSystem
  videoConverterFactory :: "string \<Rightarrow> VideoConverter"

definition convertAsync ::
  "string \<Rightarrow> ConvertService \<Rightarrow> error + (ConversionResult \<times> ConvertService)" where
  "convertAsync videoUrl s =
     (case ensureDirectoryAsync (fileSystem s) (outputDirectory s) of
        Inl e \<Rightarrow> Inl e
      | Inr u \<Rightarrow>
     (case isDependencyInSystemPathAsync (ffmpegChecker s) of
        Inl e \<Rightarrow> Inl e
      | Inr ffmpegInSystemPath \<Rightarrow>
     (let ffmpegPathOverride =
            (if \<not> ffmpegInSystemPath then getPathOfDownloadedDependency (ffmpegChecker s)
             else '''')
      in
     (case isDependencyInSystemPathAsync (youtubeDlChecker s) of
        Inl e \<Rightarrow> Inl e
      | Inr youtubeDlInSystemPath \<Rightarrow>
     (let youtubeDlPathOverride =
            (if \<not> youtubeDlInSystemPath then getPathOfDownloadedDependency (youtubeDlChecker s)
             else '''');
          videoConverter = videoConverterFactory s videoUrl
      in
     (case videoConverter videoUrl (outputDirectory s) (selectedAudioFormat s)
             (selectedAudioBitrate s) ffmpegPathOverride youtubeDlPathOverride
             OnConversionProgressChanged of
        Inl e \<Rightarrow> Inl e
      | Inr conversionResult \<Rightarrow>
          Inr (conversionResult,
               if isConversionSuccessful conversionResult
               then s\<lparr>lastConvertedFilePath := convertedFilePath conversionResult,
                      lastConvertedFileName :=
                        getFileName (fileSystem s) (convertedFilePath conversionResult)\<rparr>
               else s)))))))"

subsection \<open>Collaborators for the examples\<close>

text \<open>
  A converter that finishes at once with the given success flag, a converter that reports
  the two path overrides it was called with, a file system whose directory is always there
  and whose file name is what follows the last slash, and a service built from them.
\<close>

definition stubConverter :: "bool \<Rightarrow> VideoConverter" where
  "stubConverter ok videoUrl outputDir audioFormat audioBitrate ffmpegPathOverride
       youtubeDlPathOverride onProgress =
     Inr \<lparr>isConversionSuccessful = ok, convertedFilePath = outputDir @ ''/new.mp3''\<rparr>"

definition probeConverter :: VideoConverter where
  "probeConverter videoUrl outputDir audioFormat audioBitrate ffmpegPathOverride
       youtubeDlPathOverride onProgress =
     Inr \<lparr>isConversionSuccessful = False,
          convertedFilePath = ''ffmpeg='' @ ffmpegPathOverride @ '';youtube-dl='' @ youtubeDlPathOverride\<rparr>"

definition exampleFileSystem :: FileSystem where
  "exampleFileSystem =
     \<lparr>ensureDirectoryAsync = (\<lambda>directory. Inr ()),
      getFileName = (\<lambda>filePath. rev (takeWhile (\<lambda>c. c \<noteq> CHR ''/'') (rev filePath)))\<rparr>"

definition exampleService :: "bool \<Rightarrow> bool \<Rightarrow> VideoConverter \<Rightarrow> ConvertService" where
  "exampleService ffmpegInSystemPath youtubeDlInSystemPath converter =
     \<lparr>outputDirectory = ''/music/Vitomu'',
      lastConvertedFilePath = ''/music/Vitomu/old.mp3'',
      lastConvertedFileName = ''old.mp3'',
      selectedAudioFormat = AudioFormat ''mp3'',
      selectedAudioBitrate = 320,
      ffmpegChecker =
        \<lparr>isDependencyInSystemPathAsync = Inr ffmpegInSystemPath,
         getPathOfDownloadedDependency = ''/deps/ffmpeg''\<rparr>,
      youtubeDlChecker =
        \<lparr>isDependencyInSystemPathAsync = Inr youtubeDlInSystemPath,
         getPathOfDownloadedDependency = ''/deps/youtube-dl''\<rparr>,
      fileSystem = exampleFileSystem,
      videoConverterFactory = (\<lambda>videoUrl. converter)\<rparr>"

section \<open>Properties of the convertibility test\<close>

lemma startsWith_iff: "startsWith s x \<longleftrightarrow> (\<exists>post. s = x @ post)"
  by (induction s x rule: startsWith.induct) auto

lemma string_includes_iff: "string_includes s x \<longleftrightarrow> (\<exists>pre post. s = pre @ x @ post)"
proof (induction s)
  case Nil
  show ?case by (simp add: startsWith_iff)
next
  case (Cons c s)
  show ?case
  proof
    assume "string_includes (c # s) x"
    then consider "startsWith (c # s) x" | "string_includes s x" by auto
    then show "\<exists>pre post. c # s = pre @ x @ post"
    proof cases
      case 1
      then obtain post where "c # s = x @ post" by (auto simp: startsWith_iff)
      then have "c # s = [] @ x @ post" by simp
      then show ?thesis by blast
    next
      case 2
      then obtain pre post where "s = pre @ x @ post" using Cons.IH by auto
      then have "c # s = (c # pre) @ x @ post" by simp
      then show ?thesis by blast
    qed
  next
    assume "\<exists>pre post. c # s = pre @ x @ post"
    then obtain pre post where eq: "c # s = pre @ x @ post" by blast
    show "string_includes (c # s) x"
    proof (cases pre)
      case Nil
      with eq have "startsWith (c # s) x" by (auto simp: startsWith_iff)
      then show ?thesis by simp
    next
      case (Cons p pre')
      with eq have "s = pre' @ x @ post" by simp
      then have "string_includes s x" using Cons.IH by blast
      then show ?thesis by simp
    qed
  qed
qed

lemma convertible_example:
  "isVideoUrlConvertible [''youtube.com/watch'', ''youtu.be/''] ''https://youtu.be/abc''"
  by (simp add: isVideoUrlConvertible_def isNullOrWhiteSpace_def isWhiteSpaceChar_def)

lemma unconvertible_example:
  "\<not> isVideoUrlConvertible [''youtube.com/watch'', ''youtu.be/''] ''hello''"
  by (simp add: isVideoUrlConvertible_def isNullOrWhiteSpace_def isWhiteSpaceChar_def)

text \<open>
  C2. \<open>isVideoUrlConvertible\<close> answers true exactly for the texts that are not blank (some
  character is not whitespace) and in which one of the known link strings occurs: the text
  is some prefix, then the link string, then some rest. The function takes the table and
  the text and gives a truth value; it reads and writes nothing else.
\<close>

theorem isVideoUrlConvertible_iff:
  "isVideoUrlConvertible youtubeLinks s \<longleftrightarrow>
     (\<exists>c \<in> set s. \<not> isWhiteSpaceChar c) \<and>
     (\<exists>x \<in> set youtubeLinks. \<exists>pre post. s = pre @ x @ post)"
  by (auto simp: isVideoUrlConvertible_def isNullOrWhiteSpace_def list_all_iff list_ex_iff
      string_includes_iff)

theorem isVideoUrlConvertible_iff_witness:
  "isVideoUrlConvertible [''youtube.com/watch'', ''youtu.be/''] ''https://youtu.be/abc'' \<and>
   (\<exists>c \<in> set ''https://youtu.be/abc''. \<not> isWhiteSpaceChar c) \<and>
   (\<exists>x \<in> set [''youtube.com/watch'', ''youtu.be/''].
      \<exists>pre post. ''https://youtu.be/abc'' = pre @ x @ post) \<and>
   \<not> isVideoUrlConvertible [''youtube.com/watch'', ''youtu.be/''] ''hello'' \<and>
   \<not> (\<exists>x \<in> set [''youtube.com/watch'', ''youtu.be/'']. \<exists>pre post. ''hello'' = pre @ x @ post)"
proof -
  have ne: "\<exists>c \<in> set ''hello''. \<not> isWhiteSpaceChar c"
    by (simp add: isWhiteSpaceChar_def)
  from isVideoUrlConvertible_iff [of "[''youtube.com/watch'', ''youtu.be/'']" "''https://youtu.be/abc''"]
    isVideoUrlConvertible_iff [of "[''youtube.com/watch'', ''youtu.be/'']" "''hello''"]
    convertible_example unconvertible_example ne
  show ?thesis by blast
qed

section \<open>Clipboard changes\<close>

text \<open>
  C1. A clipboard change handled while the component is in \<open>WaitingForClipboardContent\<close> or
  \<open>HasValidClipboardContent\<close>: a convertible text leaves the component in
  \<open>HasValidClipboardContent\<close> with \<open>downloadUrl\<close> equal to that text; any other text leaves it
  in \<open>WaitingForClipboardContent\<close> with an empty \<open>downloadUrl\<close>.
\<close>

theorem clipboard_change_while_listening:
  assumes "convertState c = WaitingForClipboardContent \<or> convertState c = HasValidClipboardContent"
  shows "(isVideoUrlConvertible youtubeLinks clipboardText \<longrightarrow>
            convertState (handleClipboardContentChanged youtubeLinks clipboardText c)
              = HasValidClipboardContent \<and>
            downloadUrl (handleClipboardContentChanged youtubeLinks clipboardText c)
              = clipboardText) \<and>
         (\<not> isVideoUrlConvertible youtubeLinks clipboardText \<longrightarrow>
            convertState (handleClipboardContentChanged youtubeLinks clipboardText c)
              = WaitingForClipboardContent \<and>
            downloadUrl (handleClipboardContentChanged youtubeLinks clipboardText c) = '''')"
  using assms by (auto simp: handleClipboardContentChanged_def resetState_def)

theorem clipboard_change_while_listening_witness:
  "convertState (constructor \<lparr>clock = 0, pending = []\<rparr>) = WaitingForClipboardContent \<and>
   isVideoUrlConvertible [''youtube.com/watch'', ''youtu.be/''] ''https://youtu.be/abc'' \<and>
   convertState (handleClipboardContentChanged [''youtube.com/watch'', ''youtu.be/'']
       ''https://youtu.be/abc'' (constructor \<lparr>clock = 0, pending = []\<rparr>))
     = HasValidClipboardContent \<and>
   downloadUrl (handleClipboardContentChanged [''youtube.com/watch'', ''youtu.be/'']
       ''https://youtu.be/abc'' (constructor \<lparr>clock = 0, pending = []\<rparr>))
     = ''https://youtu.be/abc'' \<and>
   convertState (handleClipboardContentChanged [''youtube.com/watch'', ''youtu.be/''] ''hello''
       ((constructor \<lparr>clock = 0, pending = []\<rparr>)
          \<lparr>convertState := HasValidClipboardContent, downloadUrl := ''https://youtu.be/abc''\<rparr>))
     = WaitingForClipboardContent \<and>
   downloadUrl (handleClipboardContentChanged [''youtube.com/watch'', ''youtu.be/''] ''hello''
       ((constructor \<lparr>clock = 0, pending = []\<rparr>)
          \<lparr>convertState := HasValidClipboardContent, downloadUrl := ''https://youtu.be/abc''\<rparr>))
     = ''''"
proof -
  have s1: "convertState (constructor \<lparr>clock = 0, pending = []\<rparr>) = WaitingForClipboardContent"
    by (simp add: constructor_def resetState_def)
  have s2: "convertState ((constructor \<lparr>clock = 0, pending = []\<rparr>)
          \<lparr>convertState := HasValidClipboardContent, downloadUrl := ''https://youtu.be/abc''\<rparr>)
          = HasValidClipboardContent"
    by simp
  from clipboard_change_while_listening [OF disjI1 [OF s1],
      of "[''youtube.com/watch'', ''youtu.be/'']" "''https://youtu.be/abc''"]
    clipboard_change_while_listening [OF disjI2 [OF s2],
      of "[''youtube.com/watch'', ''youtu.be/'']" "''hello''"]
    convertible_example unconvertible_example s1
  show ?thesis by blast
qed

text \<open>
  C3. A clipboard change handled in any other state (\<open>Converting\<close>, \<open>Successful\<close>, \<open>Failed\<close>,
  \<open>FFmpegNotFound\<close>) changes nothing: the component, and with it \<open>convertState\<close> and
  \<open>downloadUrl\<close>, is what it was.
\<close>

theorem clipboard_change_ignored_elsewhere:
  assumes "convertState c \<noteq> WaitingForClipboardContent"
    and "convertState c \<noteq> HasValidClipboardContent"
  shows "handleClipboardContentChanged youtubeLinks clipboardText c = c"
  using assms by (simp add: handleClipboardContentChanged_def)

theorem clipboard_change_ignored_elsewhere_witness:
  "convertState ((constructor \<lparr>clock = 0, pending = []\<rparr>)
       \<lparr>convertState := Converting, downloadUrl := ''https://youtu.be/abc''\<rparr>) = Converting \<and>
   convertState (handleClipboardContentChanged [''youtu.be/''] ''https://youtu.be/xyz''
       ((constructor \<lparr>clock = 0, pending = []\<rparr>)
          \<lparr>convertState := Converting, downloadUrl := ''https://youtu.be/abc''\<rparr>)) = Converting \<and>
   downloadUrl (handleClipboardContentChanged [''youtu.be/''] ''https://youtu.be/xyz''
       ((constructor \<lparr>clock = 0, pending = []\<rparr>)
          \<lparr>convertState := Converting, downloadUrl := ''https://youtu.be/abc''\<rparr>))
     = ''https://youtu.be/abc''"
  using clipboard_change_ignored_elsewhere [of "(constructor \<lparr>clock = 0, pending = []\<rparr>)
       \<lparr>convertState := Converting, downloadUrl := ''https://youtu.be/abc''\<rparr>"
       "[''youtu.be/'']" "''https://youtu.be/xyz''"]
  by simp

section \<open>The delayed reset\<close>

lemma resetState_idem: "resetState (resetState c) = resetState c"
  by (simp add: resetState_def)

lemma fold_runAction:
  "fold (\<lambda>p. runAction (snd p)) ps c = (if ps = [] then c else resetState c)"
proof (induction ps arbitrary: c)
  case Nil
  show ?case by simp
next
  case (Cons p ps)
  have "runAction (snd p) c = resetState c" by (cases "snd p") simp
  with Cons show ?case by (simp add: resetState_idem)
qed

lemma sort_key_empty: "sort_key f xs = [] \<longleftrightarrow> xs = []"
  by (metis length_sort list.size(3) length_0_conv)

text \<open>
  Letting time pass either runs no action, and then only the delayer changes, or runs at
  least one, and then the component is as \<open>resetState\<close> leaves it.
\<close>

lemma elapse_cases:
  "elapse dt c =
     (if \<exists>p \<in> set (pending (delayer c)). fst p \<le> clock (delayer c) + dt
      then resetState (c\<lparr>delayer := \<lparr>clock = clock (delayer c) + dt,
             pending = filter (\<lambda>p. \<not> fst p \<le> clock (delayer c) + dt) (pending (delayer c))\<rparr>\<rparr>)
      else c\<lparr>delayer := \<lparr>clock = clock (delayer c) + dt,
             pending = filter (\<lambda>p. \<not> fst p \<le> clock (delayer c) + dt) (pending (delayer c))\<rparr>\<rparr>)"
  by (simp add: elapse_def Let_def fold_runAction sort_key_empty filter_empty_conv)

lemma pending_elapse:
  "pending (delayer (elapse dt c)) =
     filter (\<lambda>p. \<not> fst p \<le> clock (delayer c) + dt) (pending (delayer c))"
  by (simp add: elapse_cases resetState_def)

lemma elapse_due:
  assumes "p \<in> set (pending (delayer c))" and "fst p \<le> clock (delayer c) + dt"
  shows "convertState (elapse dt c) = WaitingForClipboardContent"
    and "progressPercent (elapse dt c) = 0"
    and "downloadUrl (elapse dt c) = ''''"
  using assms by (auto simp: elapse_cases resetState_def)

lemma elapse_none_due:
  assumes "\<forall>p \<in> set (pending (delayer c)). clock (delayer c) + dt < fst p"
  shows "convertState (elapse dt c) = convertState c"
    and "progressPercent (elapse dt c) = progressPercent c"
    and "downloadUrl (elapse dt c) = downloadUrl c"
  using assms by (auto simp: elapse_cases resetState_def)

lemma handleConvertStateChanged_terminal:
  assumes "s = Successful \<or> s = Failed"
  shows "handleConvertStateChanged s c =
           c\<lparr>convertState := s,
             delayer := (delayer c)\<lparr>pending :=
               pending (delayer c) @ [(clock (delayer c) + 3000, ResetState)]\<rparr>\<rparr>"
  using assms by (auto simp: handleConvertStateChanged_def execute_def Let_def)

lemma busy_fields:
  "clock (delayer busy) = 0" "pending (delayer busy) = []" "progressPercent busy = 100"
  "downloadUrl busy = ''https://youtu.be/abc''" "convertState busy = Converting"
  "closed (subscription busy) = False"
  by (simp_all add: busy_def constructor_def resetState_def)

text \<open>
  C4. Handling a convert-state change to \<open>Successful\<close> or \<open>Failed\<close> stores that state and
  registers exactly one more delayed action, the reset, due 3000 ms after the present
  instant. While less than 3000 ms have passed the action is still waiting, and if no
  earlier action falls due in that time the state, the progress and the URL stay as they
  are. Once 3000 ms or more have passed the action has run and is no longer waiting:
  \<open>convertState\<close> is \<open>WaitingForClipboardContent\<close>, \<open>progressPercent\<close> is 0 and \<open>downloadUrl\<close>
  is empty.
\<close>

theorem terminal_state_schedules_reset:
  assumes "s = Successful \<or> s = Failed"
  shows "convertState (handleConvertStateChanged s c) = s \<and>
         pending (delayer (handleConvertStateChanged s c))
           = pending (delayer c) @ [(clock (delayer c) + 3000, ResetState)] \<and>
         (\<forall>dt < 3000.
            (clock (delayer c) + 3000, ResetState)
              \<in> set (pending (delayer (elapse dt (handleConvertStateChanged s c)))) \<and>
            ((\<forall>p \<in> set (pending (delayer c)). clock (delayer c) + dt < fst p) \<longrightarrow>
               convertState (elapse dt (handleConvertStateChanged s c)) = s \<and>
               progressPercent (elapse dt (handleConvertStateChanged s c)) = progressPercent c \<and>
               downloadUrl (elapse dt (handleConvertStateChanged s c)) = downloadUrl c)) \<and>
         (\<forall>dt \<ge> 3000.
            convertState (elapse dt (handleConvertStateChanged s c)) = WaitingForClipboardContent \<and>
            progressPercent (elapse dt (handleConvertStateChanged s c)) = 0 \<and>
            downloadUrl (elapse dt (handleConvertStateChanged s c)) = '''' \<and>
            (clock (delayer c) + 3000, ResetState)
              \<notin> set (pending (delayer (elapse dt (handleConvertStateChanged s c)))))"
proof -
  let ?c' = "handleConvertStateChanged s c"
  let ?new = "(clock (delayer c) + 3000, ResetState)"
  have c': "?c' = c\<lparr>convertState := s,
             delayer := (delayer c)\<lparr>pending := pending (delayer c) @ [?new]\<rparr>\<rparr>"
    using assms by (rule handleConvertStateChanged_terminal)
  have st: "convertState ?c' = s" and pr: "progressPercent ?c' = progressPercent c"
    and url: "downloadUrl ?c' = downloadUrl c" and clk: "clock (delayer ?c') = clock (delayer c)"
    and pend: "pending (delayer ?c') = pending (delayer c) @ [?new]"
    by (simp_all add: c')
  have early: "?new \<in> set (pending (delayer (elapse dt ?c')))" if "dt < 3000" for dt
    using that by (simp add: pending_elapse clk pend)
  have quiet: "convertState (elapse dt ?c') = s \<and>
      progressPercent (elapse dt ?c') = progressPercent c \<and>
      downloadUrl (elapse dt ?c') = downloadUrl c"
    if "dt < 3000" and "\<forall>p \<in> set (pending (delayer c)). clock (delayer c) + dt < fst p" for dt
  proof -
    have "\<forall>p \<in> set (pending (delayer ?c')). clock (delayer ?c') + dt < fst p"
      using that by (simp add: clk pend)
    from elapse_none_due [OF this] show ?thesis by (simp add: st pr url)
  qed
  have late: "convertState (elapse dt ?c') = WaitingForClipboardContent \<and>
      progressPercent (elapse dt ?c') = 0 \<and> downloadUrl (elapse dt ?c') = '''' \<and>
      ?new \<notin> set (pending (delayer (elapse dt ?c')))" if "3000 \<le> dt" for dt
  proof -
    have m: "?new \<in> set (pending (delayer ?c'))" by (simp add: pend)
    have d: "fst ?new \<le> clock (delayer ?c') + dt" using that by (simp add: clk)
    have "?new \<notin> set (pending (delayer (elapse dt ?c')))"
      using that by (simp add: pending_elapse clk pend)
    with elapse_due [OF m d] show ?thesis by simp
  qed
  from st pend early quiet late show ?thesis by blast
qed

theorem terminal_state_schedules_reset_witness:
  "convertState (handleConvertStateChanged Successful busy) = Successful \<and>
   pending (delayer (handleConvertStateChanged Successful busy)) = [(3000, ResetState)] \<and>
   (3000, ResetState)
     \<in> set (pending (delayer (elapse 2999 (handleConvertStateChanged Successful busy)))) \<and>
   convertState (elapse 2999 (handleConvertStateChanged Successful busy)) = Successful \<and>
   progressPercent (elapse 2999 (handleConvertStateChanged Successful busy)) = 100 \<and>
   downloadUrl (elapse 2999 (handleConvertStateChanged Successful busy))
     = ''https://youtu.be/abc'' \<and>
   convertState (elapse 3000 (handleConvertStateChanged Successful busy))
     = WaitingForClipboardContent \<and>
   progressPercent (elapse 3000 (handleConvertStateChanged Successful busy)) = 0 \<and>
   downloadUrl (elapse 3000 (handleConvertStateChanged Successful busy)) = '''' \<and>
   (3000, ResetState)
     \<notin> set (pending (delayer (elapse 3000 (handleConvertStateChanged Successful busy))))"
proof -
  have s: "Successful = Successful \<or> Successful = Failed" by simp
  note t = terminal_state_schedules_reset [OF s, of busy, unfolded busy_fields]
  have a: "(2999::nat) < 3000" and b: "(3000::nat) \<le> 3000" by simp_all
  from t a b show ?thesis by simp
qed

section \<open>Teardown\<close>

lemma clock_elapse: "clock (delayer (elapse dt c)) = clock (delayer c) + dt"
  by (simp add: elapse_cases resetState_def)

lemma ngOnDestroy_fields:
  "delayer (ngOnDestroy c) = delayer c" "progressPercent (ngOnDestroy c) = progressPercent c"
  "downloadUrl (ngOnDestroy c) = downloadUrl c" "convertState (ngOnDestroy c) = convertState c"
  "closed (subscription (ngOnDestroy c)) = True"
  by (simp_all add: ngOnDestroy_def unsubscribe_def)

text \<open>
  C9, as the specification states it, fails: a component that reports \<open>Successful\<close> at
  instant 0 and is torn down at instant 1000 still has the reset waiting, and at instant
  3000 the reset runs on it: the state, the progress and the URL of the torn-down
  component change.
\<close>

theorem teardown_cancels_reset_counterexample:
  "closed (subscription (ngOnDestroy (elapse 1000 (handleConvertStateChanged Successful busy)))) \<and>
   pending (delayer (ngOnDestroy (elapse 1000 (handleConvertStateChanged Successful busy))))
     = [(3000, ResetState)] \<and>
   convertState (ngOnDestroy (elapse 1000 (handleConvertStateChanged Successful busy)))
     = Successful \<and>
   progressPercent (ngOnDestroy (elapse 1000 (handleConvertStateChanged Successful busy)))
     = 100 \<and>
   downloadUrl (ngOnDestroy (elapse 1000 (handleConvertStateChanged Successful busy)))
     = ''https://youtu.be/abc'' \<and>
   convertState
       (elapse 2000 (ngOnDestroy (elapse 1000 (handleConvertStateChanged Successful busy))))
     = WaitingForClipboardContent \<and>
   progressPercent
       (elapse 2000 (ngOnDestroy (elapse 1000 (handleConvertStateChanged Successful busy))))
     = 0 \<and>
   downloadUrl
       (elapse 2000 (ngOnDestroy (elapse 1000 (handleConvertStateChanged Successful busy))))
     = ''''"
  by (simp add: elapse_def handleConvertStateChanged_def execute_def ngOnDestroy_def
      unsubscribe_def busy_def constructor_def resetState_def Let_def)

text \<open>
  C9, amended. \<open>ngOnDestroy\<close> closes the subscription and touches nothing else, the delayer
  included. So when a component that has reported \<open>Successful\<close> or \<open>Failed\<close> is torn down
  before the 3000 ms are over, the reset is still waiting after the teardown, and once the
  3000 ms are over it has run: \<open>convertState\<close> is \<open>WaitingForClipboardContent\<close>,
  \<open>progressPercent\<close> is 0 and \<open>downloadUrl\<close> is empty.
\<close>

theorem teardown_keeps_reset:
  assumes "s = Successful \<or> s = Failed" and "t1 < 3000" and "3000 \<le> t1 + t2"
  shows "ngOnDestroy (elapse t1 (handleConvertStateChanged s c))
           = (elapse t1 (handleConvertStateChanged s c))\<lparr>subscription := \<lparr>closed = True\<rparr>\<rparr> \<and>
         (clock (delayer c) + 3000, ResetState)
           \<in> set (pending (delayer (ngOnDestroy (elapse t1 (handleConvertStateChanged s c))))) \<and>
         convertState (elapse t2 (ngOnDestroy (elapse t1 (handleConvertStateChanged s c))))
           = WaitingForClipboardContent \<and>
         progressPercent (elapse t2 (ngOnDestroy (elapse t1 (handleConvertStateChanged s c)))) = 0 \<and>
         downloadUrl (elapse t2 (ngOnDestroy (elapse t1 (handleConvertStateChanged s c)))) = ''''"
proof -
  let ?c1 = "handleConvertStateChanged s c"
  let ?c3 = "ngOnDestroy (elapse t1 ?c1)"
  let ?new = "(clock (delayer c) + 3000, ResetState)"
  have c1: "?c1 = c\<lparr>convertState := s,
             delayer := (delayer c)\<lparr>pending := pending (delayer c) @ [?new]\<rparr>\<rparr>"
    using assms(1) by (rule handleConvertStateChanged_terminal)
  have only: "?c3 = (elapse t1 ?c1)\<lparr>subscription := \<lparr>closed = True\<rparr>\<rparr>"
    by (simp add: ngOnDestroy_def unsubscribe_def)
  have clk: "clock (delayer ?c3) = clock (delayer c) + t1"
    by (simp add: ngOnDestroy_fields clock_elapse c1)
  have m: "?new \<in> set (pending (delayer ?c3))"
    using assms(2) by (simp add: ngOnDestroy_fields pending_elapse c1)
  have d: "fst ?new \<le> clock (delayer ?c3) + t2"
    using assms(3) by (simp add: clk)
  from only m elapse_due [OF m d] show ?thesis by simp
qed

theorem teardown_keeps_reset_witness:
  "ngOnDestroy (elapse 1000 (handleConvertStateChanged Failed busy))
     = (elapse 1000 (handleConvertStateChanged Failed busy))\<lparr>subscription := \<lparr>closed = True\<rparr>\<rparr> \<and>
   (3000, ResetState)
     \<in> set (pending (delayer (ngOnDestroy (elapse 1000 (handleConvertStateChanged Failed busy))))) \<and>
   convertState (elapse 2000 (ngOnDestroy (elapse 1000 (handleConvertStateChanged Failed busy))))
     = WaitingForClipboardContent \<and>
   progressPercent (elapse 2000 (ngOnDestroy (elapse 1000 (handleConvertStateChanged Failed busy))))
     = 0 \<and>
   downloadUrl (elapse 2000 (ngOnDestroy (elapse 1000 (handleConvertStateChanged Failed busy))))
     = ''''"
proof -
  have s: "Failed = Successful \<or> Failed = Failed" by simp
  have a: "(1000::nat) < 3000" and b: "(3000::nat) \<le> 1000 + 2000" by simp_all
  have z: "clock (delayer busy) + 3000 = 3000" by (simp add: busy_fields)
  from teardown_keeps_reset [OF s a b, of busy] show ?thesis unfolding z .
qed

section \<open>Initialisation and the runs of the component\<close>










text \<open>
  C6. The specification's invariant, that \<open>downloadUrl\<close> is not empty only in
  \<open>HasValidClipboardContent\<close> or during and just after a conversion, is broken by the
  start-up of the component. The handlers are subscribed before the prerequisites check is
  awaited, and the constructor has already put the component in
  \<open>WaitingForClipboardContent\<close>. A convertible link copied while the check is awaited is
  stored in \<open>downloadUrl\<close>; when the check resolves, \<open>checkPrerequisitesAsync\<close> overwrites
  \<open>convertState\<close> and keeps the URL, where \<open>resetState\<close> would have cleared it. The component
  is in \<open>FFmpegNotFound\<close> (check failed) or in \<open>WaitingForClipboardContent\<close> (check passed)
  with a URL that is not empty.
\<close>

theorem startup_race_keeps_downloadUrl:
  "convertState (ngOnInit [''youtu.be/''] [ClipboardContentChanged ''https://youtu.be/abc'']
       False (constructor \<lparr>clock = 0, pending = []\<rparr>)) = FFmpegNotFound \<and>
   downloadUrl (ngOnInit [''youtu.be/''] [ClipboardContentChanged ''https://youtu.be/abc'']
       False (constructor \<lparr>clock = 0, pending = []\<rparr>)) = ''https://youtu.be/abc'' \<and>
   convertState (ngOnInit [''youtu.be/''] [ClipboardContentChanged ''https://youtu.be/abc'']
       True (constructor \<lparr>clock = 0, pending = []\<rparr>)) = WaitingForClipboardContent \<and>
   downloadUrl (ngOnInit [''youtu.be/''] [ClipboardContentChanged ''https://youtu.be/abc'']
       True (constructor \<lparr>clock = 0, pending = []\<rparr>)) = ''https://youtu.be/abc''"
  by (simp add: ngOnInit_def checkPrerequisitesAsync_def handleClipboardContentChanged_def
      constructor_def resetState_def isVideoUrlConvertible_def isNullOrWhiteSpace_def
      isWhiteSpaceChar_def)

section \<open>Conversion\<close>

lemma exampleService_fields:
  "ensureDirectoryAsync (fileSystem (exampleService a b conv))
     (outputDirectory (exampleService a b conv)) = Inr ()"
  "isDependencyInSystemPathAsync (ffmpegChecker (exampleService a b conv)) = Inr a"
  "isDependencyInSystemPathAsync (youtubeDlChecker (exampleService a b conv)) = Inr b"
  "getPathOfDownloadedDependency (ffmpegChecker (exampleService a b conv)) = ''/deps/ffmpeg''"
  "getPathOfDownloadedDependency (youtubeDlChecker (exampleService a b conv)) = ''/deps/youtube-dl''"
  "videoConverterFactory (exampleService a b conv) videoUrl = conv"
  "outputDirectory (exampleService a b conv) = ''/music/Vitomu''"
  "lastConvertedFilePath (exampleService a b conv) = ''/music/Vitomu/old.mp3''"
  "lastConvertedFileName (exampleService a b conv) = ''old.mp3''"
  "getFileName (fileSystem (exampleService a b conv)) ''/music/Vitomu/new.mp3'' = ''new.mp3''"
  by (simp_all add: exampleService_def exampleFileSystem_def)

text \<open>
  C7. When the awaited calls before the conversion do not reject and the converter gives
  a result, \<open>convertAsync\<close> gives that same result to its caller and raises nothing,
  whatever the success flag says. When the flag is true, the service it leaves behind has
  the converted file's path in \<open>lastConvertedFilePath\<close> and the file name that the file
  system derives from that path in \<open>lastConvertedFileName\<close>.
\<close>

theorem convertAsync_returns_result:
  assumes "ensureDirectoryAsync (fileSystem s) (outputDirectory s) = Inr u"
    and "isDependencyInSystemPathAsync (ffmpegChecker s) = Inr ffmpegInSystemPath"
    and "isDependencyInSystemPathAsync (youtubeDlChecker s) = Inr youtubeDlInSystemPath"
    and "videoConverterFactory s videoUrl videoUrl (outputDirectory s) (selectedAudioFormat s)
           (selectedAudioBitrate s)
           (if ffmpegInSystemPath then '''' else getPathOfDownloadedDependency (ffmpegChecker s))
           (if youtubeDlInSystemPath then ''''
            else getPathOfDownloadedDependency (youtubeDlChecker s))
           OnConversionProgressChanged = Inr r"
  shows "\<exists>s'. convertAsync videoUrl s = Inr (r, s') \<and>
           (isConversionSuccessful r \<longrightarrow>
              lastConvertedFilePath s' = convertedFilePath r \<and>
              lastConvertedFileName s' = getFileName (fileSystem s) (convertedFilePath r))"
  using assms
  by (cases ffmpegInSystemPath; cases youtubeDlInSystemPath) (simp_all add: convertAsync_def)

theorem convertAsync_returns_result_witness:
  "(\<exists>s'. convertAsync ''https://youtu.be/abc'' (exampleService True False (stubConverter False))
           = Inr (\<lparr>isConversionSuccessful = False,
                    convertedFilePath = ''/music/Vitomu/new.mp3''\<rparr>, s')) \<and>
   (\<exists>s'. convertAsync ''https://youtu.be/abc'' (exampleService True False (stubConverter True))
           = Inr (\<lparr>isConversionSuccessful = True,
                    convertedFilePath = ''/music/Vitomu/new.mp3''\<rparr>, s') \<and>
         lastConvertedFilePath s' = ''/music/Vitomu/new.mp3'' \<and>
         lastConvertedFileName s' = ''new.mp3'')"
proof -
  have conv: "videoConverterFactory (exampleService True False (stubConverter ok))
      ''https://youtu.be/abc'' ''https://youtu.be/abc''
      (outputDirectory (exampleService True False (stubConverter ok)))
      (selectedAudioFormat (exampleService True False (stubConverter ok)))
      (selectedAudioBitrate (exampleService True False (stubConverter ok)))
      (if True then ''''
       else getPathOfDownloadedDependency (ffmpegChecker (exampleService True False (stubConverter ok))))
      (if False then ''''
       else getPathOfDownloadedDependency (youtubeDlChecker (exampleService True False (stubConverter ok))))
      OnConversionProgressChanged
    = Inr \<lparr>isConversionSuccessful = ok, convertedFilePath = ''/music/Vitomu/new.mp3''\<rparr>" for ok
    by (simp add: exampleService_fields stubConverter_def)
  from convertAsync_returns_result [OF exampleService_fields(1-3) conv [of False]]
    convertAsync_returns_result [OF exampleService_fields(1-3) conv [of True]]
  show ?thesis by (simp add: exampleService_fields)
qed

text \<open>
  C8. When the awaited calls before the conversion do not reject, what \<open>convertAsync\<close> gives
  back, a result or a rejection, is what the converter gives when it is called with the
  URL, the output directory, the selected format and bitrate, and these two path
  overrides: for each of ffmpeg and youtube-dl the empty string when the dependency was
  found in the system path, and otherwise the path of the downloaded copy that its checker
  reports.
\<close>

theorem convertAsync_path_overrides:
  assumes "ensureDirectoryAsync (fileSystem s) (outputDirectory s) = Inr u"
    and "isDependencyInSystemPathAsync (ffmpegChecker s) = Inr ffmpegInSystemPath"
    and "isDependencyInSystemPathAsync (youtubeDlChecker s) = Inr youtubeDlInSystemPath"
  shows "map_sum id fst (convertAsync videoUrl s) =
           videoConverterFactory s videoUrl videoUrl (outputDirectory s) (selectedAudioFormat s)
             (selectedAudioBitrate s)
             (if ffmpegInSystemPath then ''''
              else getPathOfDownloadedDependency (ffmpegChecker s))
             (if youtubeDlInSystemPath then ''''
              else getPathOfDownloadedDependency (youtubeDlChecker s))
             OnConversionProgressChanged"
  using assms
  by (cases ffmpegInSystemPath; cases youtubeDlInSystemPath)
    (simp_all add: convertAsync_def split: sum.splits)

theorem convertAsync_path_overrides_witness:
  "map_sum id fst (convertAsync ''https://youtu.be/abc'' (exampleService True False probeConverter))
     = Inr \<lparr>isConversionSuccessful = False,
            convertedFilePath = ''ffmpeg=;youtube-dl=/deps/youtube-dl''\<rparr> \<and>
   map_sum id fst (convertAsync ''https://youtu.be/abc'' (exampleService False True probeConverter))
     = Inr \<lparr>isConversionSuccessful = False,
            convertedFilePath = ''ffmpeg=/deps/ffmpeg;youtube-dl=''\<rparr>"
  using convertAsync_path_overrides [where s = "exampleService True False probeConverter"
      and videoUrl = "''https://youtu.be/abc''", OF exampleService_fields(1-3)]
    convertAsync_path_overrides [where s = "exampleService False True probeConverter"
      and videoUrl = "''https://youtu.be/abc''", OF exampleService_fields(1-3)]
  by (simp add: exampleService_fields probeConverter_def)

text \<open>
  C10. When \<open>convertAsync\<close> returns a result whose success flag is false, the service is left
  as it was: \<open>lastConvertedFilePath\<close> and \<open>lastConvertedFileName\<close> have the values they had
  before the call.
\<close>

theorem failed_conversion_keeps_last_converted:
  assumes "convertAsync videoUrl s = Inr (r, s')" and "\<not> isConversionSuccessful r"
  shows "lastConvertedFilePath s' = lastConvertedFilePath s \<and>
         lastConvertedFileName s' = lastConvertedFileName s \<and> s' = s"
  using assms
  by (auto simp: convertAsync_def Let_def split: sum.splits if_splits)

theorem failed_conversion_keeps_last_converted_witness:
  "\<exists>r s'. convertAsync ''https://youtu.be/abc'' (exampleService True True (stubConverter False))
             = Inr (r, s') \<and>
          \<not> isConversionSuccessful r \<and>
          lastConvertedFilePath s' = ''/music/Vitomu/old.mp3'' \<and>
          lastConvertedFileName s' = ''old.mp3''"
proof -
  have run: "convertAsync ''https://youtu.be/abc'' (exampleService True True (stubConverter False))
      = Inr (\<lparr>isConversionSuccessful = False, convertedFilePath = ''/music/Vitomu/new.mp3''\<rparr>,
             exampleService True True (stubConverter False))"
    by (simp add: convertAsync_def exampleService_def exampleFileSystem_def stubConverter_def)
  have flag: "\<not> isConversionSuccessful
      \<lparr>isConversionSuccessful = False, convertedFilePath = ''/music/Vitomu/new.mp3''\<rparr>"
    by simp
  from failed_conversion_keeps_last_converted [OF run flag] run flag
  show ?thesis by (simp add: exampleService_fields)
qed

end
